theory Spec2Isabelle
  imports Complex_Main
begin

section \<open>Data model\<close>

text \<open>
  The server keeps three collections: products, carts and orders. A JavaScript
  \<^verbatim>\<open>Number\<close> is modelled as a rational (\<^typ>\<open>rat\<close>): prices, stock levels and
  quantities are compared, added and multiplied, and \<^verbatim>\<open>Number.isInteger\<close> has to
  tell 2 from 2.5; rounding of binary floating point is outside the model.
  An identifier arriving in a request is a string; whether it can be cast to an
  ObjectId (\<^verbatim>\<open>mongoose.Types.ObjectId.isValid\<close>) is decided by the library, so
  every handler that depends on it takes the predicate \<open>isValid\<close> as a parameter.
  Creation and modification timestamps of carts are not modelled: no handler
  branches on them.
\<close>

type_synonym oid = string

record product =
  name :: string
  price :: rat
  stock :: rat
  isActive :: bool

record cart_item =
  productId :: oid
  quantity :: rat

record cart =
  cart_id :: nat
  userId :: "oid option"
  sessionId :: "string option"
  items :: "cart_item list"

record customer_info =
  ci_name :: string
  ci_email :: string
  ci_phone :: string

record address =
  street :: string
  city :: string
  state :: string
  zipCode :: string
  country :: string

record order_item =
  oi_productId :: oid
  oi_productName :: string
  oi_quantity :: rat
  oi_price :: rat
  oi_subtotal :: rat

text \<open>
  The order document as the handlers build it with \<^verbatim>\<open>new Order({...})\<close> and read it
  back: the fields are the ones the handlers write (\<^verbatim>\<open>totalAmount\<close>, \<^verbatim>\<open>status\<close>,
  \<^verbatim>\<open>paymentStatus\<close>, \<^verbatim>\<open>customerId\<close>, ...). Persistence of an order is the
  collaborator's narrow contract: \<^verbatim>\<open>save\<close> stores the document under its \<^verbatim>\<open>_id\<close>,
  \<^verbatim>\<open>findById\<close> returns it. The schema file \<^verbatim>\<open>models/Order.js\<close> declares other
  field names (\<^verbatim>\<open>total\<close>, \<^verbatim>\<open>orderStatus\<close>, \<^verbatim>\<open>contactEmail\<close>) than the handlers
  use and is not applied to the documents here; the cart schema, which agrees with
  its handlers, is (see the validators of the cart below).
\<close>

record order =
  orderNumber :: string
  customerId :: "oid option"
  customerInfo :: customer_info
  order_items :: "order_item list"
  shippingAddress :: address
  totalAmount :: rat
  shippingFee :: rat
  tax :: rat
  paymentMethod :: string
  order_notes :: "string option"
  status :: string
  paymentStatus :: string
  paidAt :: "nat option"
  stripePaymentIntentId :: "string option"
  stripeSessionId :: "string option"
  paypalOrderId :: "string option"
  paypalCaptureId :: "string option"

record db =
  products :: "oid \<rightharpoonup> product"
  carts :: "cart list"
  orders :: "oid \<rightharpoonup> order"

text \<open>Where a redirect goes; the front end's base URL is configuration.\<close>

datatype destination = OrderSuccess oid | CheckoutPaymentFailed | CheckoutPaymentError

text \<open>
  What a handler answers. \<open>Fail n msg\<close> is
  \<^verbatim>\<open>res.status(n).json({success: false, message: msg})\<close>, the message a fixed text
  or one of the three templates; \<open>CartOk msg id items itemCount\<close> is the success
  envelope of the cart routes; \<open>OrderPlaced\<close> carries the order's id, number, total,
  status, payment status and the two e-mail flags; \<open>PaymentFail n msg\<close> is
  \<^verbatim>\<open>res.status(n).json({message: msg})\<close>; \<open>NoResponse\<close> is a handler that returns
  without answering; \<open>Unhandled\<close> is an exception that leaves an \<^verbatim>\<open>async\<close> handler
  with no \<^verbatim>\<open>try\<close> around it.
\<close>

datatype message =
    Msg string
  | OnlyInStock rat
  | ProductNotFoundMsg oid
  | InsufficientStockFor string

datatype response =
    Fail nat message
  | CartOk string nat "cart_item list" rat
  | OrderPlaced oid string rat string string bool bool
  | PaymentFail nat string
  | PaymentUrl string oid string
  | Received
  | WebhookError string
  | Redirect destination
  | NoResponse
  | Unhandled

section \<open>Collection operations\<close>

text \<open>
  \<^verbatim>\<open>Model.findById(id)\<close>: a string that is no ObjectId makes the query reject with a
  cast error; otherwise the document or \<^verbatim>\<open>null\<close>.
\<close>

definition findById :: "(oid \<Rightarrow> bool) \<Rightarrow> (oid \<rightharpoonup> 'a) \<Rightarrow> oid \<Rightarrow> unit + 'a option" where
  "findById isValid coll i = (if isValid i then Inr (coll i) else Inl ())"

text \<open>\<^verbatim>\<open>Product.findByIdAndUpdate(id, {$inc: {stock: d}})\<close> on a stored ObjectId.\<close>

definition inc_stock :: "(oid \<rightharpoonup> product) \<Rightarrow> oid \<Rightarrow> rat \<Rightarrow> (oid \<rightharpoonup> product)" where
  "inc_stock ps i d =
     (case ps i of None \<Rightarrow> ps | Some p \<Rightarrow> ps(i \<mapsto> p\<lparr>stock := stock p + d\<rparr>))"

text \<open>\<^verbatim>\<open>Cart.findOne(filter)\<close>: the first cart the filter matches.\<close>

definition findOne :: "(cart \<Rightarrow> bool) \<Rightarrow> cart list \<Rightarrow> cart option" where
  "findOne f cs = List.find f cs"

text \<open>\<^verbatim>\<open>Cart.findOneAndUpdate(filter, {$set: {items: []}})\<close>.\<close>

fun clear_first :: "(cart \<Rightarrow> bool) \<Rightarrow> cart list \<Rightarrow> cart list" where
  "clear_first f [] = []"
| "clear_first f (c # cs) = (if f c then c\<lparr>items := []\<rparr> # cs else c # clear_first f cs)"

section \<open>Payment reconciliation\<close>

text \<open>The loop \<^verbatim>\<open>for (const item of order.items)\<close> that reduces product stock.\<close>

fun reduce_stock :: "(oid \<rightharpoonup> product) \<Rightarrow> order_item list \<Rightarrow> (oid \<rightharpoonup> product)" where
  "reduce_stock ps [] = ps"
| "reduce_stock ps (it # its) =
     reduce_stock (inc_stock ps (oi_productId it) (- oi_quantity it)) its"

text \<open>\<^verbatim>\<open>if (order.customerId) await Cart.findOneAndUpdate({userId: order.customerId}, ...)\<close>\<close>

definition clear_customer_cart :: "oid option \<Rightarrow> cart list \<Rightarrow> cart list" where
  "clear_customer_cart cust cs =
     (case cust of None \<Rightarrow> cs | Some u \<Rightarrow> clear_first (\<lambda>c. userId c = Some u) cs)"




record capture_result =
  capture_status :: string
  capture_id :: string

text \<open>
  \<^verbatim>\<open>GET /payment/paypal-success?orderId&token\<close>. \<open>capture\<close> is the wallet processor's
  capture request for the token: \<open>Inl ()\<close> when the call throws. The whole handler is
  inside \<^verbatim>\<open>try\<close>, so every exception ends in the redirect of the \<^verbatim>\<open>catch\<close> block.
\<close>

definition paypal_success ::
  "(string \<Rightarrow> unit + capture_result) \<Rightarrow> (oid \<Rightarrow> bool) \<Rightarrow> nat \<Rightarrow> db
     \<Rightarrow> oid \<Rightarrow> string \<Rightarrow> response \<times> db" where
  "paypal_success capture isValid now d orderId token =
     (case capture token of
        Inl _ \<Rightarrow> (Redirect CheckoutPaymentError, d)
      | Inr res \<Rightarrow>
          if capture_status res = ''COMPLETED'' then
            (case findById isValid (orders d) orderId of
               Inl _ \<Rightarrow> (Redirect CheckoutPaymentError, d)
             | Inr None \<Rightarrow> (Redirect (OrderSuccess orderId), d)
             | Inr (Some ord) \<Rightarrow>
                 (let ord' = ord\<lparr>paymentStatus := ''paid'', status := ''processing'',
                                  paidAt := Some now,
                                  paypalCaptureId := Some (capture_id res)\<rparr>;
                      d1 = d\<lparr>orders := (orders d)(orderId \<mapsto> ord')\<rparr>;
                      d2 = d1\<lparr>products := reduce_stock (products d1) (order_items ord')\<rparr>;
                      d3 = d2\<lparr>carts := clear_customer_cart (customerId ord') (carts d2)\<rparr>
                  in (Redirect (OrderSuccess orderId), d3)))
          else (Redirect CheckoutPaymentFailed, d))"

section \<open>Requests and the guest-session middleware\<close>

text \<open>
  The request object a cart route sees. The first five fields come from the parsers
  installed with \<^verbatim>\<open>app.use\<close> (JSON body, cookies); \<open>req_sessionId\<close> is
  \<^verbatim>\<open>req.sessionId\<close>, the property \<^verbatim>\<open>ensureGuestSession\<close> writes; the last three are
  \<^verbatim>\<open>req.session?.userId\<close>, \<^verbatim>\<open>req.user?._id\<close> and \<^verbatim>\<open>req.sessionID\<close>, which only a
  session or authentication middleware would write.
\<close>

record request =
  body_userId :: "string option"
  body_sessionId :: "string option"
  body_productId :: "string option"
  body_quantity :: "rat option"
  cookies_guestSessionId :: "string option"
  req_sessionId :: "string option"
  req_session_userId :: "string option"
  req_user_id :: "string option"
  req_sessionID :: "string option"

text \<open>What arrives over HTTP, before any middleware of the application has run.\<close>

record http_request =
  http_userId :: "string option"
  http_sessionId :: "string option"
  http_productId :: "string option"
  http_quantity :: "rat option"
  http_guestSessionId :: "string option"

text \<open>
  The application-wide middleware is \<^verbatim>\<open>cors\<close>, \<^verbatim>\<open>express.json\<close>,
  \<^verbatim>\<open>express.urlencoded\<close> and \<^verbatim>\<open>cookieParser\<close>: they fill the body and the cookies and
  nothing else.
\<close>

definition app_middleware :: "http_request \<Rightarrow> request" where
  "app_middleware h =
     \<lparr>body_userId = http_userId h, body_sessionId = http_sessionId h,
      body_productId = http_productId h, body_quantity = http_quantity h,
      cookies_guestSessionId = http_guestSessionId h,
      req_sessionId = None, req_session_userId = None, req_user_id = None,
      req_sessionID = None\<rparr>"

text \<open>JavaScript truthiness of an optional string: absent and empty are falsy.\<close>

definition truthy :: "string option \<Rightarrow> bool" where
  "truthy v = (case v of None \<Rightarrow> False | Some s \<Rightarrow> s \<noteq> [])"

text \<open>
  \<^verbatim>\<open>ensureGuestSession\<close>: \<open>suffix\<close> stands for the clock reading and the random
  digits of a newly generated identifier. The second component is the cookie set on
  the response, if any.
\<close>

definition ensureGuestSession :: "string \<Rightarrow> request \<Rightarrow> request \<times> string option" where
  "ensureGuestSession suffix req =
     (if truthy (body_userId req) then (req, None)
      else if truthy (cookies_guestSessionId req)
           then (req\<lparr>req_sessionId := cookies_guestSessionId req\<rparr>, None)
           else (req\<lparr>req_sessionId := Some (''session_'' @ suffix)\<rparr>,
                 Some (''session_'' @ suffix)))"

section \<open>Cart operations\<close>

text \<open>\<^verbatim>\<open>Array.prototype.findIndex\<close>; \<open>None\<close> is the result -1.\<close>

fun findIndex :: "('a \<Rightarrow> bool) \<Rightarrow> 'a list \<Rightarrow> nat option" where
  "findIndex P [] = None"
| "findIndex P (x # xs) = (if P x then Some 0 else map_option Suc (findIndex P xs))"

text \<open>
  The validators of the cart schema, run by \<^verbatim>\<open>cart.save()\<close>: every line has a
  quantity of at least 1, and no product occurs twice.
\<close>

definition cart_validates :: "cart \<Rightarrow> bool" where
  "cart_validates c =
     (list_all (\<lambda>it. 1 \<le> quantity it) (items c) \<and> distinct (map productId (items c)))"

text \<open>
  \<^verbatim>\<open>cart.save()\<close>: a validation error rejects (\<open>Inl ()\<close>); otherwise the document
  replaces the stored one with the same \<^verbatim>\<open>_id\<close>, or is inserted.
\<close>

definition save_cart :: "cart \<Rightarrow> cart list \<Rightarrow> unit + cart list" where
  "save_cart c cs =
     (if \<not> cart_validates c then Inl ()
      else if cart_id c \<in> set (map cart_id cs)
           then Inr (map (\<lambda>x. if cart_id x = cart_id c then c else x) cs)
           else Inr (cs @ [c]))"

text \<open>The \<^verbatim>\<open>_id\<close> given to \<^verbatim>\<open>new Cart(...)\<close>: one no stored cart has.\<close>

definition new_cart_id :: "cart list \<Rightarrow> nat" where
  "new_cart_id cs = Suc (foldr max (map cart_id cs) 0)"

text \<open>\<^verbatim>\<open>Cart.deleteOne(filter)\<close>.\<close>

fun deleteOne :: "(cart \<Rightarrow> bool) \<Rightarrow> cart list \<Rightarrow> cart list" where
  "deleteOne f [] = []"
| "deleteOne f (c # cs) = (if f c then cs else c # deleteOne f cs)"

text \<open>\<^verbatim>\<open>userId ? { userId } : { sessionId }\<close> as a predicate on carts.\<close>

definition cart_filter :: "string option \<Rightarrow> string option \<Rightarrow> cart \<Rightarrow> bool" where
  "cart_filter u s c = (if truthy u then userId c = u else sessionId c = s)"

text \<open>
  \<^verbatim>\<open>const userId = req.body.userId || null\<close> and
  \<^verbatim>\<open>const sessionId = userId ? null : req.sessionId\<close>, as the add and update routes
  resolve the identity.
\<close>

definition request_userId :: "request \<Rightarrow> string option" where
  "request_userId req = (if truthy (body_userId req) then body_userId req else None)"

definition request_sessionId :: "request \<Rightarrow> string option" where
  "request_sessionId req = (if truthy (request_userId req) then None else req_sessionId req)"

definition itemCount :: "cart_item list \<Rightarrow> rat" where
  "itemCount its = sum_list (map quantity its)"

definition server_error :: response where
  "server_error = Fail 500 (Msg ''Server error occurred'')"


text \<open>\<^verbatim>\<open>Number.isInteger\<close> on a number.\<close>

definition isInteger :: "rat \<Rightarrow> bool" where
  "isInteger q = (of_int \<lfloor>q\<rfloor> = q)"

text \<open>\<^verbatim>\<open>PUT /cart/update\<close>, after \<^verbatim>\<open>ensureGuestSession\<close>.\<close>

definition cart_update :: "(oid \<Rightarrow> bool) \<Rightarrow> db \<Rightarrow> request \<Rightarrow> response \<times> db" where
  "cart_update isValid d req =
     (let u = request_userId req;
          s = request_sessionId req
      in
      if \<not> truthy u \<and> \<not> truthy s then (Fail 400 (Msg ''userId or sessionId required''), d)
      else if \<not> truthy (body_productId req) \<or> body_quantity req = None
        then (Fail 400 (Msg ''productId and quantity are required''), d)
      else if truthy u \<and> \<not> isValid (the u) then (Fail 400 (Msg ''Invalid user ID format''), d)
      else if \<not> isValid (the (body_productId req))
        then (Fail 400 (Msg ''Invalid product ID format''), d)
      else
        (let pid = the (body_productId req); qty = the (body_quantity req) in
         if qty < 0 \<or> \<not> isInteger qty
         then (Fail 400 (Msg ''Quantity must be a non-negative integer''), d)
         else
           case findOne (cart_filter u s) (carts d) of
             None \<Rightarrow> (Fail 404 (Msg ''Cart not found''), d)
           | Some c \<Rightarrow>
               (case findIndex (\<lambda>it. productId it = pid) (items c) of
                  None \<Rightarrow> (Fail 404 (Msg ''Item not found in cart''), d)
                | Some i \<Rightarrow>
                    if qty = 0 then
                      (let c' = c\<lparr>items := take i (items c) @ drop (Suc i) (items c)\<rparr>
                       in case save_cart c' (carts d) of
                            Inl _ \<Rightarrow> (server_error, d)
                          | Inr cs \<Rightarrow>
                              (CartOk ''Item removed from cart'' (cart_id c') (items c')
                                 (itemCount (items c')), d\<lparr>carts := cs\<rparr>))
                    else
                      (case products d pid of
                         None \<Rightarrow> (Fail 404 (Msg ''Product not found''), d)
                       | Some product \<Rightarrow>
                           if qty > stock product
                           then (Fail 400 (OnlyInStock (stock product)), d)
                           else
                             (let c' = c\<lparr>items := (items c)[i := (items c ! i)\<lparr>quantity := qty\<rparr>]\<rparr>
                              in case save_cart c' (carts d) of
                                   Inl _ \<Rightarrow> (server_error, d)
                                 | Inr cs \<Rightarrow>
                                     (CartOk ''Cart updated'' (cart_id c') (items c')
                                        (itemCount (items c')), d\<lparr>carts := cs\<rparr>))))))"

text \<open>
  \<^verbatim>\<open>DELETE /cart/remove\<close>. The route is registered without \<^verbatim>\<open>ensureGuestSession\<close> and
  reads the identity from \<^verbatim>\<open>req.session\<close>, \<^verbatim>\<open>req.user\<close> and \<^verbatim>\<open>req.sessionID\<close>.
\<close>

definition cart_remove :: "(oid \<Rightarrow> bool) \<Rightarrow> db \<Rightarrow> request \<Rightarrow> response \<times> db" where
  "cart_remove isValid d req =
     (let u = (if truthy (req_session_userId req) then req_session_userId req
               else req_user_id req);
          s = req_sessionID req
      in
      if \<not> truthy u \<and> \<not> truthy s then (Fail 400 (Msg ''No active session found''), d)
      else if \<not> truthy (body_productId req) then (Fail 400 (Msg ''productId is required''), d)
      else if truthy u \<and> \<not> isValid (the u) then (Fail 400 (Msg ''Invalid user ID format''), d)
      else if \<not> isValid (the (body_productId req))
        then (Fail 400 (Msg ''Invalid product ID format''), d)
      else
        (let pid = the (body_productId req) in
         case findOne (cart_filter u s) (carts d) of
           None \<Rightarrow> (Fail 404 (Msg ''Cart not found''), d)
         | Some c \<Rightarrow>
             (let c' = c\<lparr>items := filter (\<lambda>it. productId it \<noteq> pid) (items c)\<rparr>
              in case save_cart c' (carts d) of
                   Inl _ \<Rightarrow> (server_error, d)
                 | Inr cs \<Rightarrow>
                     (CartOk ''Item removed from cart'' (cart_id c') (items c')
                        (itemCount (items c')), d\<lparr>carts := cs\<rparr>))))"

text \<open>The route as the application serves it: the request comes straight from the
  application-wide middleware.\<close>

definition delete_cart_remove :: "(oid \<Rightarrow> bool) \<Rightarrow> db \<Rightarrow> http_request \<Rightarrow> response \<times> db" where
  "delete_cart_remove isValid d h = cart_remove isValid d (app_middleware h)"

text \<open>The loop of \<^verbatim>\<open>POST /cart/merge\<close> over the guest cart's lines.\<close>

fun merge_items :: "cart_item list \<Rightarrow> cart_item list \<Rightarrow> cart_item list" where
  "merge_items us [] = us"
| "merge_items us (g # gs) =
     merge_items
       (case findIndex (\<lambda>it. productId it = productId g) us of
          Some i \<Rightarrow> us[i := (us ! i)\<lparr>quantity := quantity (us ! i) + quantity g\<rparr>]
        | None \<Rightarrow> us @ [g])
       gs"

text \<open>\<^verbatim>\<open>POST /cart/merge\<close>; the identities are read from the body.\<close>

definition cart_merge :: "(oid \<Rightarrow> bool) \<Rightarrow> db \<Rightarrow> request \<Rightarrow> response \<times> db" where
  "cart_merge isValid d req =
     (let u = body_userId req; s = body_sessionId req in
      if \<not> truthy u \<or> \<not> truthy s
      then (Fail 400 (Msg ''Both userId and sessionId are required''), d)
      else if \<not> isValid (the u) then (Fail 400 (Msg ''Invalid user ID format''), d)
      else
        (let guestCart = findOne (\<lambda>c. sessionId c = s) (carts d);
             userCart = findOne (\<lambda>c. userId c = u) (carts d)
         in
         if guestCart = None \<or> items (the guestCart) = [] then
           (case userCart of
              None \<Rightarrow>
                (let c = \<lparr>cart_id = new_cart_id (carts d), userId = u, sessionId = None,
                          items = []\<rparr>
                 in case save_cart c (carts d) of
                      Inl _ \<Rightarrow> (server_error, d)
                    | Inr cs \<Rightarrow>
                        (CartOk ''No items to merge'' (cart_id c) (items c)
                           (itemCount (items c)), d\<lparr>carts := cs\<rparr>))
            | Some c \<Rightarrow>
                (CartOk ''No items to merge'' (cart_id c) (items c) (itemCount (items c)), d))
         else
           (let g = the guestCart in
            case userCart of
              None \<Rightarrow>
                (let g' = g\<lparr>userId := u, sessionId := None\<rparr>
                 in case save_cart g' (carts d) of
                      Inl _ \<Rightarrow> (server_error, d)
                    | Inr cs \<Rightarrow>
                        (CartOk ''Cart merged successfully'' (cart_id g') (items g')
                           (itemCount (items g')), d\<lparr>carts := cs\<rparr>))
            | Some c \<Rightarrow>
                (let c' = c\<lparr>items := merge_items (items c) (items g)\<rparr>
                 in case save_cart c' (carts d) of
                      Inl _ \<Rightarrow> (server_error, d)
                    | Inr cs \<Rightarrow>
                        (CartOk ''Cart merged successfully'' (cart_id c') (items c')
                           (itemCount (items c')),
                         d\<lparr>carts := deleteOne (\<lambda>x. sessionId x = s) cs\<rparr>)))))"

section \<open>Order placement\<close>

record req_item =
  ri_productId :: oid
  ri_quantity :: rat

record order_request =
  rq_customerId :: "oid option"
  rq_customerInfo :: "customer_info option"
  rq_items :: "req_item list option"
  rq_shippingAddress :: "address option"
  rq_shippingFee :: "rat option"
  rq_tax :: "rat option"
  rq_paymentMethod :: string
  rq_notes :: "string option"

text \<open>\<^verbatim>\<open>x || 0\<close> on an optional number.\<close>

definition or_zero :: "rat option \<Rightarrow> rat" where
  "or_zero v = (case v of None \<Rightarrow> 0 | Some x \<Rightarrow> x)"

text \<open>
  The item loop of \<^verbatim>\<open>POST /orders\<close>. Each round looks the product up, checks the
  stock, adds to the subtotal, appends the snapshot and saves the product with its
  stock reduced; a \<^verbatim>\<open>return res.status(...)\<close> or an exception leaves the loop with
  the products as they are at that moment.
\<close>

fun place_items ::
  "(oid \<Rightarrow> bool) \<Rightarrow> (oid \<rightharpoonup> product) \<Rightarrow> rat \<Rightarrow> order_item list \<Rightarrow> req_item list
     \<Rightarrow> (oid \<rightharpoonup> product) \<times> (response + rat \<times> order_item list)" where
  "place_items isValid ps subtotal orderItems [] = (ps, Inr (subtotal, orderItems))"
| "place_items isValid ps subtotal orderItems (item # rest) =
     (case findById isValid ps (ri_productId item) of
        Inl _ \<Rightarrow> (ps, Inl server_error)
      | Inr None \<Rightarrow> (ps, Inl (Fail 404 (ProductNotFoundMsg (ri_productId item))))
      | Inr (Some product) \<Rightarrow>
          if stock product < ri_quantity item
          then (ps, Inl (Fail 400 (InsufficientStockFor (name product))))
          else
            (let itemSubtotal = price product * ri_quantity item in
             place_items isValid
               (ps(ri_productId item \<mapsto> product\<lparr>stock := stock product - ri_quantity item\<rparr>))
               (subtotal + itemSubtotal)
               (orderItems @ [\<lparr>oi_productId = ri_productId item, oi_productName = name product,
                                oi_quantity = ri_quantity item, oi_price = price product,
                                oi_subtotal = itemSubtotal\<rparr>])
               rest))"

text \<open>
  \<^verbatim>\<open>POST /orders\<close>. \<open>newId\<close> and \<open>number\<close> are the generated \<^verbatim>\<open>_id\<close> and order
  number; \<open>customerSent\<close> and \<open>adminSent\<close> are the outcomes of the two e-mails.
\<close>

definition place_order ::
  "(oid \<Rightarrow> bool) \<Rightarrow> oid \<Rightarrow> string \<Rightarrow> bool \<Rightarrow> bool \<Rightarrow> db \<Rightarrow> order_request \<Rightarrow> response \<times> db" where
  "place_order isValid newId number customerSent adminSent d rq =
     (if rq_customerInfo rq = None \<or> rq_items rq = None \<or> rq_items rq = Some []
         \<or> rq_shippingAddress rq = None
      then (Fail 400 (Msg ''Missing required fields''), d)
      else
        (case place_items isValid (products d) 0 [] (the (rq_items rq)) of
           (ps, Inl resp) \<Rightarrow> (resp, d\<lparr>products := ps\<rparr>)
         | (ps, Inr (subtotal, orderItems)) \<Rightarrow>
             (let total = subtotal + or_zero (rq_shippingFee rq) + or_zero (rq_tax rq);
                  ord = \<lparr>orderNumber = number,
                         customerId = (if truthy (rq_customerId rq) then rq_customerId rq else None),
                         customerInfo = the (rq_customerInfo rq),
                         order_items = orderItems,
                         shippingAddress = the (rq_shippingAddress rq),
                         totalAmount = total,
                         shippingFee = or_zero (rq_shippingFee rq),
                         tax = or_zero (rq_tax rq),
                         paymentMethod = rq_paymentMethod rq,
                         order_notes = rq_notes rq,
                         status = ''pending'', paymentStatus = ''unpaid'', paidAt = None,
                         stripePaymentIntentId = None, stripeSessionId = None,
                         paypalOrderId = None, paypalCaptureId = None\<rparr>
              in (OrderPlaced newId number total ''pending'' ''unpaid'' customerSent adminSent,
                  d\<lparr>products := ps, orders := (orders d)(newId \<mapsto> ord)\<rparr>))))"





text \<open>The sum of the line subtotals an order stores.\<close>

definition lines_total :: "order_item list \<Rightarrow> rat" where
  "lines_total its = sum_list (map oi_subtotal its)"

section \<open>The per-identity lock\<close>

text \<open>
  \<^verbatim>\<open>cartLocks\<close> is a map whose keys are the held identities. One request to
  \<^verbatim>\<open>POST /cart/add\<close> runs in pieces separated by its \<^verbatim>\<open>await\<close>s, and pieces of
  different requests interleave. A request is in one of these phases: not yet
  arrived; inside \<^verbatim>\<open>acquireLock\<close>, asleep until its timer fires (with the start time
  and the time the timer is due); inside the protected part of the handler, between
  the return of \<^verbatim>\<open>acquireLock\<close> and the \<^verbatim>\<open>finally\<close> block; finished after the
  protected part; finished by the lock timeout.
\<close>

datatype phase =
    NotStarted
  | Waiting string nat nat
  | InBody string
  | Finished
  | TimedOut

record gate =
  cartLocks :: "string set"
  clock :: nat
  phases :: "nat \<Rightarrow> phase"

text \<open>
  One pass through the head of the loop in \<^verbatim>\<open>acquireLock\<close> for request \<open>i\<close>:
  the key is free and is taken; or it is held and the wait is over, the error is
  thrown, the handler's \<^verbatim>\<open>catch\<close> answers 500 and its \<^verbatim>\<open>finally\<close> calls
  \<^verbatim>\<open>releaseLock\<close>; or it is held and the request sleeps 10 ms.
\<close>

definition acquire_attempt :: "nat \<Rightarrow> nat \<Rightarrow> string \<Rightarrow> nat \<Rightarrow> gate \<Rightarrow> gate" where
  "acquire_attempt maxWait i key startTime g =
     (if key \<in> cartLocks g then
        (if clock g - startTime > maxWait
         then g\<lparr>cartLocks := cartLocks g - {key}, phases := (phases g)(i := TimedOut)\<rparr>
         else g\<lparr>phases := (phases g)(i := Waiting key startTime (clock g + 10))\<rparr>)
      else g\<lparr>cartLocks := insert key (cartLocks g), phases := (phases g)(i := InBody key)\<rparr>)"

text \<open>
  What the event loop can run next: time passes; request \<open>i\<close> arrives with its lock
  key; the timer of a sleeping request fires; the protected part of a request comes
  to its end (by any \<^verbatim>\<open>return\<close> or exception) and \<^verbatim>\<open>finally\<close> releases the key.
\<close>

datatype event = Tick nat | Arrive nat string | Wake nat | Complete nat

fun step :: "nat \<Rightarrow> gate \<Rightarrow> event \<Rightarrow> gate" where
  "step maxWait g (Tick n) = g\<lparr>clock := clock g + n\<rparr>"
| "step maxWait g (Arrive i key) =
     (case phases g i of
        NotStarted \<Rightarrow> acquire_attempt maxWait i key (clock g) g
      | _ \<Rightarrow> g)"
| "step maxWait g (Wake i) =
     (case phases g i of
        Waiting key startTime due \<Rightarrow>
          if due \<le> clock g then acquire_attempt maxWait i key startTime g else g
      | _ \<Rightarrow> g)"
| "step maxWait g (Complete i) =
     (case phases g i of
        InBody key \<Rightarrow> g\<lparr>cartLocks := cartLocks g - {key}, phases := (phases g)(i := Finished)\<rparr>
      | _ \<Rightarrow> g)"

definition run :: "nat \<Rightarrow> gate \<Rightarrow> event list \<Rightarrow> gate" where
  "run maxWait g evs = foldl (step maxWait) g evs"

definition idle :: gate where
  "idle = \<lparr>cartLocks = {}, clock = 0, phases = (\<lambda>_. NotStarted)\<rparr>"

text \<open>The time a schedule lets pass.\<close>

fun ticks :: "event \<Rightarrow> nat" where
  "ticks (Tick n) = n"
| "ticks _ = 0"

text \<open>
  The lock does its work in a state where every request inside the protected part
  has its key in \<^verbatim>\<open>cartLocks\<close>, and no two requests are inside it for one key.
\<close>

definition exclusive :: "gate \<Rightarrow> bool" where
  "exclusive g =
     ((\<forall>i key. phases g i = InBody key \<longrightarrow> key \<in> cartLocks g)
      \<and> (\<forall>i j key. phases g i = InBody key \<and> phases g j = InBody key \<longrightarrow> i = j))"

section \<open>Quantities per product\<close>


text \<open>The same for the lines of a request and for the lines of a cart.\<close>

definition requested_qty :: "oid \<Rightarrow> req_item list \<Rightarrow> rat" where
  "requested_qty i its = sum_list (map ri_quantity (filter (\<lambda>it. ri_productId it = i) its))"

definition cart_qty :: "oid \<Rightarrow> cart_item list \<Rightarrow> rat" where
  "cart_qty i its = sum_list (map quantity (filter (\<lambda>it. productId it = i) its))"

section \<open>Example data\<close>

text \<open>
  A small shop used to run the handlers on concrete requests: one product with five
  units in stock, a second with one unit, a guest cart holding three units of the
  first, and an unpaid order for two units of the first.
\<close>

definition example_valid :: "oid \<Rightarrow> bool" where
  "example_valid i = (i \<noteq> ''not-an-id'')"

definition tea :: product where
  "tea = \<lparr>name = ''Tea'', price = 10, stock = 5, isActive = True\<rparr>"

definition mug :: product where
  "mug = \<lparr>name = ''Mug'', price = 4, stock = 1, isActive = True\<rparr>"

definition guest_cart :: cart where
  "guest_cart = \<lparr>cart_id = 1, userId = None, sessionId = Some ''session_1'',
                 items = [\<lparr>productId = ''p1'', quantity = 3\<rparr>]\<rparr>"

definition order1 :: order where
  "order1 = \<lparr>orderNumber = ''YOS000001001'', customerId = None,
     customerInfo = \<lparr>ci_name = ''Ada'', ci_email = ''ada@example.org'', ci_phone = ''1''\<rparr>,
     order_items = [\<lparr>oi_productId = ''p1'', oi_productName = ''Tea'', oi_quantity = 2,
                      oi_price = 10, oi_subtotal = 20\<rparr>],
     shippingAddress = \<lparr>street = ''1 Main St'', city = ''Lagos'', state = ''LA'',
                         zipCode = ''100001'', country = ''Nigeria''\<rparr>,
     totalAmount = 20, shippingFee = 0, tax = 0, paymentMethod = ''stripe'',
     order_notes = None, status = ''pending'', paymentStatus = ''unpaid'', paidAt = None,
     stripePaymentIntentId = None, stripeSessionId = Some ''cs_1'', paypalOrderId = None,
     paypalCaptureId = None\<rparr>"

definition shop :: db where
  "shop = \<lparr>products = [''p1'' \<mapsto> tea, ''p2'' \<mapsto> mug], carts = [guest_cart],
           orders = [''o1'' \<mapsto> order1]\<rparr>"


text \<open>A capture the wallet processor answers with the given status.\<close>

definition captured :: "string \<Rightarrow> string \<Rightarrow> unit + capture_result" where
  "captured st token = Inr \<lparr>capture_status = st, capture_id = ''cap_1''\<rparr>"

text \<open>A guest's request on product \<open>p1\<close> with the given quantity, after the session
  middleware has attached the identifier from the cookie.\<close>

definition guest_request :: "rat \<Rightarrow> request" where
  "guest_request q =
     \<lparr>body_userId = None, body_sessionId = None, body_productId = Some ''p1'',
      body_quantity = Some q, cookies_guestSessionId = Some ''session_1'',
      req_sessionId = Some ''session_1'', req_session_userId = None, req_user_id = None,
      req_sessionID = None\<rparr>"

text \<open>
  An order for two units of tea and five mugs, of which the shop has one; and the same
  lines sent to the payment route with a total of 1.
\<close>

definition two_lines :: "req_item list" where
  "two_lines = [\<lparr>ri_productId = ''p1'', ri_quantity = 2\<rparr>,
                \<lparr>ri_productId = ''p2'', ri_quantity = 5\<rparr>]"

definition ada :: customer_info where
  "ada = \<lparr>ci_name = ''Ada'', ci_email = ''ada@example.org'', ci_phone = ''1''\<rparr>"

definition main_street :: address where
  "main_street = \<lparr>street = ''1 Main St'', city = ''Lagos'', state = ''LA'',
                   zipCode = ''100001'', country = ''Nigeria''\<rparr>"

definition direct_request :: "req_item list \<Rightarrow> order_request" where
  "direct_request its =
     \<lparr>rq_customerId = None, rq_customerInfo = Some ada, rq_items = Some its,
      rq_shippingAddress = Some main_street, rq_shippingFee = Some 3, rq_tax = None,
      rq_paymentMethod = ''cod'', rq_notes = None\<rparr>"




text \<open>
  Three requests to add to the cart of \<^verbatim>\<open>session_1\<close>. The first takes the lock and
  its protected part lasts longer than five seconds; the second arrives at the same
  time and wakes every 10 ms, 501 times; then the third arrives.
\<close>

definition slow_first :: "event list" where
  "slow_first =
     [Arrive 0 ''session_1'', Arrive 1 ''session_1'']
     @ concat (replicate 501 [Tick 10, Wake 1])
     @ [Arrive 2 ''session_1'']"

text \<open>A user's cart and requests to merge the guest cart of \<^verbatim>\<open>session_1\<close> into it.\<close>

definition user_cart :: cart where
  "user_cart = \<lparr>cart_id = 2, userId = Some ''u1'', sessionId = None,
                 items = [\<lparr>productId = ''p2'', quantity = 1\<rparr>,
                          \<lparr>productId = ''p1'', quantity = 1\<rparr>]\<rparr>"

definition merge_request :: request where
  "merge_request =
     \<lparr>body_userId = Some ''u1'', body_sessionId = Some ''session_1'', body_productId = None,
      body_quantity = None, cookies_guestSessionId = None, req_sessionId = None,
      req_session_userId = None, req_user_id = None, req_sessionID = None\<rparr>"

section \<open>Properties of payment reconciliation\<close>






text \<open>
  C8. When the capture request returns a status other than \<^verbatim>\<open>COMPLETED\<close>, the browser
  is sent to the payment-failed page and the whole database is as before: the order
  keeps its payment status and order status, no stock changes, no cart is cleared.
\<close>

theorem paypal_capture_not_completed:
  assumes "capture token = Inr res" and "capture_status res \<noteq> ''COMPLETED''"
  shows "paypal_success capture isValid now d orderId token = (Redirect CheckoutPaymentFailed, d)"
  using assms by (simp add: paypal_success_def)

theorem paypal_capture_not_completed_witness:
  "paypal_success (captured ''PENDING'') example_valid 7 shop ''o1'' ''tok'' =
     (Redirect CheckoutPaymentFailed, shop)
   \<and> map_option paymentStatus (orders shop ''o1'') = Some ''unpaid''
   \<and> map_option status (orders shop ''o1'') = Some ''pending''"
proof -
  have a: "captured ''PENDING'' ''tok'' = Inr \<lparr>capture_status = ''PENDING'', capture_id = ''cap_1''\<rparr>"
    by (simp add: captured_def)
  show ?thesis
    using paypal_capture_not_completed
      [where capture = "captured ''PENDING''" and token = "''tok''" and isValid = example_valid
         and now = 7 and d = shop and orderId = "''o1''", OF a]
    by (simp add: shop_def order1_def)
qed




section \<open>Properties of the cart operations\<close>

text \<open>
  C9. Whatever arrives over HTTP, with or without the guest-session cookie, the remove
  route answers 400 \<^verbatim>\<open>No active session found\<close> and changes no cart: none of the
  three properties it reads is set by the application's middleware, and the property
  \<^verbatim>\<open>ensureGuestSession\<close> would set is a different one.
\<close>

theorem cart_remove_never_identified:
  "delete_cart_remove isValid d h = (Fail 400 (Msg ''No active session found''), d)
   \<and> cart_remove isValid d (fst (ensureGuestSession suffix (app_middleware h)))
       = (Fail 400 (Msg ''No active session found''), d)"
  by (simp add: delete_cart_remove_def cart_remove_def app_middleware_def truthy_def
      ensureGuestSession_def)

lemma findIndex_Some:
  "findIndex P xs = Some i \<Longrightarrow> i < length xs \<and> P (xs ! i) \<and> (\<forall>j<i. \<not> P (xs ! j))"
proof (induction xs arbitrary: i)
  case Nil
  then show ?case by simp
next
  case (Cons x xs)
  show ?case
  proof (cases "P x")
    case True
    with Cons.prems show ?thesis by simp
  next
    case False
    with Cons.prems obtain k where k: "findIndex P xs = Some k" "i = Suc k" by auto
    from Cons.IH [OF k(1)] False k(2) show ?thesis
      by (auto simp: nth_Cons split: nat.splits)
  qed
qed

lemma findIndex_None: "findIndex P xs = None \<Longrightarrow> \<forall>x\<in>set xs. \<not> P x"
  by (induction xs) (auto split: if_splits)

lemma findOne_Some: "findOne f cs = Some c \<Longrightarrow> c \<in> set cs \<and> f c"
  unfolding findOne_def by (induction cs) (auto split: if_splits)

lemma set_quantity_valid:
  assumes "cart_validates c" and "i < length (items c)" and "1 \<le> q"
  shows "cart_validates (c\<lparr>items := (items c)[i := (items c ! i)\<lparr>quantity := q\<rparr>]\<rparr>)"
proof -
  have "map productId ((items c)[i := (items c ! i)\<lparr>quantity := q\<rparr>]) = map productId (items c)"
    using assms(2) by (simp add: map_update list_update_same_conv)
  moreover have "list_all (\<lambda>it. 1 \<le> quantity it) ((items c)[i := (items c ! i)\<lparr>quantity := q\<rparr>])"
    using assms by (auto simp: cart_validates_def list_all_iff dest!: set_update_subset_insert [THEN subsetD])
  ultimately show ?thesis using assms(1) by (simp add: cart_validates_def)
qed

lemma save_existing:
  assumes "cart_validates c'" and "c \<in> set cs" and "cart_id c' = cart_id c"
  shows "save_cart c' cs = Inr (map (\<lambda>x. if cart_id x = cart_id c then c' else x) cs)"
  using assms by (auto simp: save_cart_def)





lemma isInteger_pos: "isInteger q \<Longrightarrow> 0 < q \<Longrightarrow> 1 \<le> q"
proof -
  assume a: "isInteger q" and b: "0 < q"
  from a have e: "q = of_int \<lfloor>q\<rfloor>" unfolding isInteger_def by (rule sym)
  from b e have "0 < (of_int \<lfloor>q\<rfloor> :: rat)" by simp
  then have "0 < \<lfloor>q\<rfloor>" by (simp only: of_int_0_less_iff)
  then have "1 \<le> \<lfloor>q\<rfloor>" by simp
  then have "(1::rat) \<le> of_int \<lfloor>q\<rfloor>" by (simp only: of_int_1_le_iff)
  with e show ?thesis by simp
qed

lemma splice_is_filter:
  "distinct (map productId xs) \<Longrightarrow> findIndex (\<lambda>it. productId it = pid) xs = Some i \<Longrightarrow>
     take i xs @ drop (Suc i) xs = filter (\<lambda>it. productId it \<noteq> pid) xs"
proof (induction xs arbitrary: i)
  case Nil
  then show ?case by simp
next
  case (Cons x xs)
  show ?case
  proof (cases "productId x = pid")
    case True
    with Cons.prems have i0: "i = 0" by simp
    from Cons.prems(1) have "productId x \<notin> productId ` set xs" by simp
    with True have "\<forall>y\<in>set xs. productId y \<noteq> pid" by blast
    then have "filter (\<lambda>it. productId it \<noteq> pid) xs = xs" by (simp add: filter_id_conv)
    with True i0 show ?thesis by simp
  next
    case False
    with Cons.prems obtain k where k: "findIndex (\<lambda>it. productId it = pid) xs = Some k" "i = Suc k"
      by auto
    from Cons.prems(1) have "distinct (map productId xs)" by simp
    from Cons.IH [OF this k(1)] False k(2) show ?thesis by simp
  qed
qed

lemma filter_valid:
  "cart_validates c \<Longrightarrow> cart_validates (c\<lparr>items := filter P (items c)\<rparr>)"
  by (auto simp: cart_validates_def list_all_iff distinct_map_filter)

text \<open>
  C7. A negative or non-integer quantity is answered with 400 and changes nothing,
  for every request. When the request names a line of the cart found for it: the
  quantity 0 removes that line (the stored lines are the ones the remove route's
  filter keeps); any other quantity is compared with the product's current stock and,
  if it does not exceed it, overwrites the line's quantity; if it does, the answer is
  400 and nothing changes.
\<close>

theorem cart_update_quantity_cases:
  assumes q: "body_quantity req = Some q"
  shows "(q < 0 \<or> \<not> isInteger q \<longrightarrow> (\<exists>m. cart_update isValid d req = (Fail 400 m, d)))
    \<and> ((truthy (request_userId req) \<or> truthy (request_sessionId req))
        \<and> (truthy (request_userId req) \<longrightarrow> isValid (the (request_userId req)))
        \<and> body_productId req = Some pid \<and> pid \<noteq> [] \<and> isValid pid
        \<and> findOne (cart_filter (request_userId req) (request_sessionId req)) (carts d) = Some c
        \<and> cart_validates c
        \<and> findIndex (\<lambda>it. productId it = pid) (items c) = Some i
       \<longrightarrow>
        (q < 0 \<or> \<not> isInteger q \<longrightarrow>
           cart_update isValid d req =
             (Fail 400 (Msg ''Quantity must be a non-negative integer''), d))
        \<and> (q = 0 \<longrightarrow>
           cart_update isValid d req =
             (CartOk ''Item removed from cart'' (cart_id c)
                (filter (\<lambda>it. productId it \<noteq> pid) (items c))
                (itemCount (filter (\<lambda>it. productId it \<noteq> pid) (items c))),
              d\<lparr>carts := map (\<lambda>x. if cart_id x = cart_id c
                                   then c\<lparr>items := filter (\<lambda>it. productId it \<noteq> pid) (items c)\<rparr>
                                   else x) (carts d)\<rparr>))
        \<and> (0 < q \<and> isInteger q \<longrightarrow>
            (\<forall>product. products d pid = Some product \<longrightarrow>
               (q \<le> stock product \<longrightarrow>
                  cart_update isValid d req =
                    (CartOk ''Cart updated'' (cart_id c)
                       ((items c)[i := (items c ! i)\<lparr>quantity := q\<rparr>])
                       (itemCount ((items c)[i := (items c ! i)\<lparr>quantity := q\<rparr>])),
                     d\<lparr>carts := map (\<lambda>x. if cart_id x = cart_id c
                                  then c\<lparr>items := (items c)[i := (items c ! i)\<lparr>quantity := q\<rparr>]\<rparr>
                                  else x) (carts d)\<rparr>))
               \<and> (stock product < q \<longrightarrow>
                  cart_update isValid d req = (Fail 400 (OnlyInStock (stock product)), d)))))"
    (is "?bad \<and> (?ready \<longrightarrow> ?bad' \<and> ?zero \<and> ?pos)")
proof -
  have bad: ?bad using q by (auto simp: cart_update_def Let_def)
  have rest: "?bad' \<and> ?zero \<and> ?pos" if r: ?ready
  proof -
    from r have ident: "truthy (request_userId req) \<or> truthy (request_sessionId req)"
      and uval: "truthy (request_userId req) \<longrightarrow> isValid (the (request_userId req))"
      and pid: "body_productId req = Some pid" "pid \<noteq> []" "isValid pid"
      and cart: "findOne (cart_filter (request_userId req) (request_sessionId req)) (carts d) = Some c"
      and valid: "cart_validates c"
      and line: "findIndex (\<lambda>it. productId it = pid) (items c) = Some i"
      by blast+
    have tp: "truthy (body_productId req)" using pid by (simp add: truthy_def)
    from findIndex_Some [OF line] have i: "i < length (items c)" by simp
    from findOne_Some [OF cart] have mem: "c \<in> set (carts d)" by simp
    have b': ?bad'
      using ident uval pid tp q by (auto simp: cart_update_def Let_def)
    have z: ?zero
    proof
      assume q0: "q = 0"
      let ?c' = "c\<lparr>items := filter (\<lambda>it. productId it \<noteq> pid) (items c)\<rparr>"
      from valid have dist: "distinct (map productId (items c))" by (simp add: cart_validates_def)
      have sp: "take i (items c) @ drop (Suc i) (items c) = filter (\<lambda>it. productId it \<noteq> pid) (items c)"
        using splice_is_filter [OF dist line] .
      have sv: "save_cart ?c' (carts d) = Inr (map (\<lambda>x. if cart_id x = cart_id c then ?c' else x) (carts d))"
        using save_existing [OF filter_valid [OF valid] mem] by simp
      have int0: "isInteger 0" by (simp add: isInteger_def)
      show "cart_update isValid d req =
             (CartOk ''Item removed from cart'' (cart_id c)
                (filter (\<lambda>it. productId it \<noteq> pid) (items c))
                (itemCount (filter (\<lambda>it. productId it \<noteq> pid) (items c))),
              d\<lparr>carts := map (\<lambda>x. if cart_id x = cart_id c then ?c' else x) (carts d)\<rparr>)"
        using ident uval pid tp q q0 cart line sp sv int0
        by (simp add: cart_update_def Let_def)
    qed
    have p: ?pos
    proof (intro impI allI conjI)
      fix product
      assume qq: "0 < q \<and> isInteger q" and pr: "products d pid = Some product"
      let ?c' = "c\<lparr>items := (items c)[i := (items c ! i)\<lparr>quantity := q\<rparr>]\<rparr>"
      from qq have q1: "1 \<le> q" by (simp add: isInteger_pos)
      have sv: "save_cart ?c' (carts d) = Inr (map (\<lambda>x. if cart_id x = cart_id c then ?c' else x) (carts d))"
        using save_existing [OF set_quantity_valid [OF valid i q1] mem] by simp
      {
        assume le: "q \<le> stock product"
        show "cart_update isValid d req =
                    (CartOk ''Cart updated'' (cart_id c)
                       ((items c)[i := (items c ! i)\<lparr>quantity := q\<rparr>])
                       (itemCount ((items c)[i := (items c ! i)\<lparr>quantity := q\<rparr>])),
                     d\<lparr>carts := map (\<lambda>x. if cart_id x = cart_id c then ?c' else x) (carts d)\<rparr>)"
          using ident uval pid tp q qq cart line pr le sv
          by (simp add: cart_update_def Let_def)
      }
      {
        assume gt: "stock product < q"
        show "cart_update isValid d req = (Fail 400 (OnlyInStock (stock product)), d)"
          using ident uval pid tp q qq cart line pr gt
          by (simp add: cart_update_def Let_def)
      }
    qed
    from b' z p show ?thesis by blast
  qed
  from bad rest show ?thesis by blast
qed


lemmas shop_simps = shop_def guest_request_def example_valid_def tea_def mug_def guest_cart_def
     request_userId_def request_sessionId_def truthy_def findOne_def cart_filter_def



theorem cart_update_quantity_cases_witness:
  "cart_update example_valid shop (guest_request (- 1)) =
     (Fail 400 (Msg ''Quantity must be a non-negative integer''), shop)
   \<and> cart_update example_valid shop (guest_request (5 / 2)) =
     (Fail 400 (Msg ''Quantity must be a non-negative integer''), shop)
   \<and> cart_update example_valid shop (guest_request 0) =
     (CartOk ''Item removed from cart'' 1 [] 0, shop\<lparr>carts := [guest_cart\<lparr>items := []\<rparr>]\<rparr>)
   \<and> cart_update example_valid shop (guest_request 4) =
     (CartOk ''Cart updated'' 1 [\<lparr>productId = ''p1'', quantity = 4\<rparr>] 4,
      shop\<lparr>carts := [guest_cart\<lparr>items := [\<lparr>productId = ''p1'', quantity = 4\<rparr>]\<rparr>]\<rparr>)
   \<and> cart_update example_valid shop (guest_request 6) = (Fail 400 (OnlyInStock 5), shop)"
proof -
  have k: "body_quantity (guest_request q) = Some q" for q
    by (simp add: guest_request_def)
  have r: "(truthy (request_userId (guest_request q)) \<or> truthy (request_sessionId (guest_request q)))
        \<and> (truthy (request_userId (guest_request q)) \<longrightarrow>
             example_valid (the (request_userId (guest_request q))))
        \<and> body_productId (guest_request q) = Some ''p1'' \<and> ''p1'' \<noteq> [] \<and> example_valid ''p1''
        \<and> findOne (cart_filter (request_userId (guest_request q)) (request_sessionId (guest_request q)))
             (carts shop) = Some guest_cart
        \<and> cart_validates guest_cart
        \<and> findIndex (\<lambda>it. productId it = ''p1'') (items guest_cart) = Some 0" for q
    by (simp add: shop_simps cart_validates_def)
  have p: "products shop ''p1'' = Some tea" by (simp add: shop_def)
  have i4: "isInteger 4" and i6: "isInteger 6"
    by (simp_all add: isInteger_def)
  have "\<lfloor>5 / 2 :: rat\<rfloor> = 2" by (rule floor_unique) simp_all
  then have i52: "\<not> isInteger (5 / 2)" by (simp add: isInteger_def)
  from cart_update_quantity_cases [OF k, of "- 1" example_valid shop "''p1''" guest_cart 0]
       cart_update_quantity_cases [OF k, of "5 / 2" example_valid shop "''p1''" guest_cart 0]
       cart_update_quantity_cases [OF k, of 0 example_valid shop "''p1''" guest_cart 0]
       cart_update_quantity_cases [OF k, of 4 example_valid shop "''p1''" guest_cart 0]
       cart_update_quantity_cases [OF k, of 6 example_valid shop "''p1''" guest_cart 0]
       r p i4 i6 i52
  show ?thesis by (simp add: itemCount_def tea_def guest_cart_def shop_def)
qed

section \<open>Properties of the cart merge\<close>

lemma cart_qty_update:
  "i < length us \<Longrightarrow>
     cart_qty p (us[i := (us ! i)\<lparr>quantity := q\<rparr>]) =
       cart_qty p us + (if productId (us ! i) = p then q - quantity (us ! i) else 0)"
proof (induction us arbitrary: i)
  case Nil
  then show ?case by simp
next
  case (Cons x xs)
  show ?case
  proof (cases i)
    case 0
    then show ?thesis by (simp add: cart_qty_def)
  next
    case (Suc k)
    with Cons.prems have "k < length xs" by simp
    from Cons.IH [OF this] Suc show ?thesis by (simp add: cart_qty_def)
  qed
qed

lemma cart_qty_snoc:
  "cart_qty p (us @ [g]) = cart_qty p us + (if productId g = p then quantity g else 0)"
  by (simp add: cart_qty_def)

lemma merge_items_qty:
  "cart_qty p (merge_items us gs) = cart_qty p us + cart_qty p gs"
proof (induction gs arbitrary: us)
  case Nil
  show ?case by (simp add: cart_qty_def)
next
  case (Cons g gs)
  have step: "cart_qty p
       (case findIndex (\<lambda>it. productId it = productId g) us of
          Some i \<Rightarrow> us[i := (us ! i)\<lparr>quantity := quantity (us ! i) + quantity g\<rparr>]
        | None \<Rightarrow> us @ [g])
     = cart_qty p us + (if productId g = p then quantity g else 0)"
  proof (cases "findIndex (\<lambda>it. productId it = productId g) us")
    case None
    then show ?thesis by (simp add: cart_qty_snoc)
  next
    case (Some i)
    from findIndex_Some [OF Some] have "i < length us" "productId (us ! i) = productId g"
      by simp_all
    with Some show ?thesis by (simp add: cart_qty_update)
  qed
  have "cart_qty p (g # gs) = (if productId g = p then quantity g else 0) + cart_qty p gs"
    by (simp add: cart_qty_def)
  with step show ?case by (simp add: Cons.IH)
qed

lemma merge_items_valid:
  "distinct (map productId us) \<Longrightarrow> list_all (\<lambda>it. 1 \<le> quantity it) us \<Longrightarrow>
   list_all (\<lambda>it. 1 \<le> quantity it) gs \<Longrightarrow>
     distinct (map productId (merge_items us gs))
     \<and> list_all (\<lambda>it. 1 \<le> quantity it) (merge_items us gs)"
proof (induction gs arbitrary: us)
  case Nil
  then show ?case by simp
next
  case (Cons g gs)
  let ?us' = "case findIndex (\<lambda>it. productId it = productId g) us of
          Some i \<Rightarrow> us[i := (us ! i)\<lparr>quantity := quantity (us ! i) + quantity g\<rparr>]
        | None \<Rightarrow> us @ [g]"
  from Cons.prems(3) have g1: "1 \<le> quantity g" and gs1: "list_all (\<lambda>it. 1 \<le> quantity it) gs"
    by simp_all
  have "distinct (map productId ?us') \<and> list_all (\<lambda>it. 1 \<le> quantity it) ?us'"
  proof (cases "findIndex (\<lambda>it. productId it = productId g) us")
    case None
    from findIndex_None [OF None] have "productId g \<notin> productId ` set us" by auto
    with None Cons.prems(1,2) g1 show ?thesis by simp
  next
    case (Some i)
    from findIndex_Some [OF Some] have i: "i < length us" by simp
    from Cons.prems(2) i have "1 \<le> quantity (us ! i)" by (simp add: list_all_length)
    with g1 have q: "1 \<le> quantity (us ! i) + quantity g" by simp
    have m: "map productId (us[i := (us ! i)\<lparr>quantity := quantity (us ! i) + quantity g\<rparr>])
               = map productId us"
      using i by (simp add: map_update list_update_same_conv)
    have "list_all (\<lambda>it. 1 \<le> quantity it)
            (us[i := (us ! i)\<lparr>quantity := quantity (us ! i) + quantity g\<rparr>])"
      using Cons.prems(2) q
      by (auto simp: list_all_iff dest!: set_update_subset_insert [THEN subsetD])
    with m Some Cons.prems(1) show ?thesis by simp
  qed
  then have "distinct (map productId (merge_items ?us' gs))
     \<and> list_all (\<lambda>it. 1 \<le> quantity it) (merge_items ?us' gs)"
    using gs1 Cons.IH by blast
  then show ?case by simp
qed

lemma merged_cart_valid:
  assumes "cart_validates c" and "cart_validates g"
  shows "cart_validates (c\<lparr>items := merge_items (items c) (items g)\<rparr>)"
  using assms merge_items_valid [of "items c" "items g"]
  by (simp add: cart_validates_def)

lemma findOne_map:
  "findOne f cs = Some g \<Longrightarrow> \<forall>x\<in>set cs. f (r x) = f x \<Longrightarrow> r g = g \<Longrightarrow>
     findOne f (map r cs) = Some g"
  unfolding findOne_def by (induction cs) (auto split: if_splits)

lemma deleteOne_removes:
  "findOne f cs = Some g \<Longrightarrow> distinct (map cart_id cs) \<Longrightarrow>
     cart_id g \<notin> cart_id ` set (deleteOne f cs)"
proof (induction cs)
  case Nil
  then show ?case by (simp add: findOne_def)
next
  case (Cons x xs)
  show ?case
  proof (cases "f x")
    case True
    with Cons.prems show ?thesis by (simp add: findOne_def)
  next
    case False
    with Cons.prems have fo: "findOne f xs = Some g" by (simp add: findOne_def)
    from findOne_Some [OF fo] have gx: "g \<in> set xs" by simp
    from gx have "cart_id g \<in> cart_id ` set xs" by (rule imageI)
    moreover from Cons.prems(2) have "cart_id x \<notin> cart_id ` set xs" by simp
    ultimately have "cart_id g \<noteq> cart_id x" by metis
    moreover from Cons.IH [OF fo] Cons.prems(2)
    have "cart_id g \<notin> cart_id ` set (deleteOne f xs)" by simp
    ultimately show ?thesis using False by simp
  qed
qed

lemma deleteOne_keeps:
  "x \<in> set cs \<Longrightarrow> findOne f cs = Some g \<Longrightarrow> x \<noteq> g \<Longrightarrow> x \<in> set (deleteOne f cs)"
  unfolding findOne_def by (induction cs) (auto split: if_splits)

lemma new_cart_id_fresh: "new_cart_id cs \<notin> cart_id ` set cs"
proof -
  have "\<forall>x\<in>set cs. cart_id x \<le> foldr max (map cart_id cs) 0"
    by (induction cs) auto
  then show ?thesis by (auto simp: new_cart_id_def)
qed

lemma save_new:
  "cart_validates c \<Longrightarrow> cart_id c = new_cart_id cs \<Longrightarrow> save_cart c cs = Inr (cs @ [c])"
  using new_cart_id_fresh [of cs] by (simp add: save_cart_def)


text \<open>
  C6 (as amended). The request names a user and a guest session. If both carts exist
  and the guest cart has lines, the user's cart is stored with the merged lines, each
  product's quantity in it is the sum of its quantities in the two carts, and the
  guest cart is deleted. If the guest cart has lines and the user has no cart, the
  guest cart is stored under the user's identity with its lines unchanged. If the
  guest cart is absent or empty and the user has a cart, nothing changes. If the guest
  cart is absent or empty and the user has no cart, an empty cart for the user is
  created and stored, and a guest cart that exists stays keyed to its session.
\<close>

theorem cart_merge_cases:
  assumes u: "body_userId req = Some uid" "uid \<noteq> []" "isValid uid"
    and s: "body_sessionId req = Some sid" "sid \<noteq> []"
  shows
   "(findOne (\<lambda>x. sessionId x = Some sid) (carts d) = Some g \<and> items g \<noteq> []
      \<and> findOne (\<lambda>x. userId x = Some uid) (carts d) = Some c
      \<and> cart_id g \<noteq> cart_id c \<and> distinct (map cart_id (carts d))
      \<and> cart_validates c \<and> cart_validates g
     \<longrightarrow>
      (\<exists>d'. cart_merge isValid d req =
               (CartOk ''Cart merged successfully'' (cart_id c)
                  (merge_items (items c) (items g))
                  (itemCount (merge_items (items c) (items g))), d')
           \<and> carts d' =
               deleteOne (\<lambda>x. sessionId x = Some sid)
                 (map (\<lambda>x. if cart_id x = cart_id c
                            then c\<lparr>items := merge_items (items c) (items g)\<rparr> else x) (carts d))
           \<and> c\<lparr>items := merge_items (items c) (items g)\<rparr> \<in> set (carts d')
           \<and> cart_id g \<notin> cart_id ` set (carts d')
           \<and> products d' = products d \<and> orders d' = orders d)
      \<and> (\<forall>p. cart_qty p (merge_items (items c) (items g))
               = cart_qty p (items c) + cart_qty p (items g)))
    \<and> (findOne (\<lambda>x. sessionId x = Some sid) (carts d) = Some g \<and> items g \<noteq> []
        \<and> findOne (\<lambda>x. userId x = Some uid) (carts d) = None \<and> cart_validates g
       \<longrightarrow>
        cart_merge isValid d req =
          (CartOk ''Cart merged successfully'' (cart_id g) (items g) (itemCount (items g)),
           d\<lparr>carts := map (\<lambda>x. if cart_id x = cart_id g
                                then g\<lparr>userId := Some uid, sessionId := None\<rparr> else x)
                          (carts d)\<rparr>))
    \<and> ((findOne (\<lambda>x. sessionId x = Some sid) (carts d) = None
          \<or> (findOne (\<lambda>x. sessionId x = Some sid) (carts d) = Some g \<and> items g = []))
        \<and> findOne (\<lambda>x. userId x = Some uid) (carts d) = Some c
       \<longrightarrow>
        cart_merge isValid d req =
          (CartOk ''No items to merge'' (cart_id c) (items c) (itemCount (items c)), d))
    \<and> ((findOne (\<lambda>x. sessionId x = Some sid) (carts d) = None
          \<or> (findOne (\<lambda>x. sessionId x = Some sid) (carts d) = Some g \<and> items g = []))
        \<and> findOne (\<lambda>x. userId x = Some uid) (carts d) = None
       \<longrightarrow>
        cart_merge isValid d req =
          (CartOk ''No items to merge'' (new_cart_id (carts d)) [] 0,
           d\<lparr>carts := carts d @ [\<lparr>cart_id = new_cart_id (carts d), userId = Some uid,
                                   sessionId = None, items = []\<rparr>]\<rparr>))"
    (is "(?hA \<longrightarrow> ?cA) \<and> (?hB \<longrightarrow> ?cB) \<and> (?hC \<longrightarrow> ?cC) \<and> (?hD \<longrightarrow> ?cD)")
proof -
  have tu: "truthy (body_userId req)" and ts: "truthy (body_sessionId req)"
    using u s by (simp_all add: truthy_def)
  have A: ?cA if h: ?hA
  proof -
    let ?c' = "c\<lparr>items := merge_items (items c) (items g)\<rparr>"
    let ?r = "\<lambda>x. if cart_id x = cart_id c then ?c' else x"
    let ?f = "\<lambda>x. sessionId x = Some sid"
    from h have fg: "findOne ?f (carts d) = Some g" and ne: "items g \<noteq> []"
      and fc: "findOne (\<lambda>x. userId x = Some uid) (carts d) = Some c"
      and ids: "cart_id g \<noteq> cart_id c" and dist: "distinct (map cart_id (carts d))"
      and vc: "cart_validates c" and vg: "cart_validates g"
      by blast+
    from findOne_Some [OF fc] have cm: "c \<in> set (carts d)" by simp
    from findOne_Some [OF fg] have gm: "g \<in> set (carts d)" by simp
    have sv: "save_cart ?c' (carts d) = Inr (map ?r (carts d))"
      using save_existing [OF merged_cart_valid [OF vc vg] cm] by simp
    have same: "\<forall>x\<in>set (carts d). cart_id x = cart_id c \<longrightarrow> x = c"
      using dist cm by (auto simp: distinct_map inj_on_def)
    then have fr: "\<forall>x\<in>set (carts d). ?f (?r x) = ?f x" by auto
    have rg: "?r g = g" using ids by simp
    have fg': "findOne ?f (map ?r (carts d)) = Some g"
      using findOne_map [OF fg fr rg] .
    have "cart_id \<circ> ?r = cart_id" by (auto simp: fun_eq_iff)
    with dist have dist': "distinct (map cart_id (map ?r (carts d)))" by simp
    have gone: "cart_id g \<notin> cart_id ` set (deleteOne ?f (map ?r (carts d)))"
      using deleteOne_removes [OF fg' dist'] .
    have "?c' \<in> set (map ?r (carts d))" using cm by force
    moreover have "?c' \<noteq> g"
    proof
      assume "?c' = g"
      then have "cart_id ?c' = cart_id g" by (rule arg_cong)
      with ids show False by simp
    qed
    ultimately have kept: "?c' \<in> set (deleteOne ?f (map ?r (carts d)))"
      using deleteOne_keeps [OF _ fg'] by blast
    have run: "cart_merge isValid d req =
               (CartOk ''Cart merged successfully'' (cart_id c)
                  (merge_items (items c) (items g))
                  (itemCount (merge_items (items c) (items g))),
                d\<lparr>carts := deleteOne ?f (map ?r (carts d))\<rparr>)"
      using u s tu ts fg ne fc sv by (simp add: cart_merge_def Let_def)
    have "\<exists>d'. cart_merge isValid d req =
               (CartOk ''Cart merged successfully'' (cart_id c)
                  (merge_items (items c) (items g))
                  (itemCount (merge_items (items c) (items g))), d')
           \<and> carts d' = deleteOne ?f (map ?r (carts d))
           \<and> ?c' \<in> set (carts d')
           \<and> cart_id g \<notin> cart_id ` set (carts d')
           \<and> products d' = products d \<and> orders d' = orders d"
      using run gone kept
      by (intro exI [of _ "d\<lparr>carts := deleteOne ?f (map ?r (carts d))\<rparr>"]) simp
    then show ?thesis by (simp add: merge_items_qty)
  qed
  have B: ?cB if h: ?hB
  proof -
    from h have fg: "findOne (\<lambda>x. sessionId x = Some sid) (carts d) = Some g"
      and ne: "items g \<noteq> []"
      and fc: "findOne (\<lambda>x. userId x = Some uid) (carts d) = None"
      and vg: "cart_validates g"
      by blast+
    from findOne_Some [OF fg] have gm: "g \<in> set (carts d)" by simp
    have "cart_validates (g\<lparr>userId := Some uid, sessionId := None\<rparr>)"
      using vg by (simp add: cart_validates_def)
    from save_existing [OF this gm]
    have sv: "save_cart (g\<lparr>userId := Some uid, sessionId := None\<rparr>) (carts d) =
       Inr (map (\<lambda>x. if cart_id x = cart_id g
                      then g\<lparr>userId := Some uid, sessionId := None\<rparr> else x) (carts d))"
      by simp
    show ?thesis using u s tu ts fg ne fc sv by (simp add: cart_merge_def Let_def)
  qed
  have C: ?cC if h: ?hC
    using h u s tu ts by (auto simp: cart_merge_def Let_def)
  have D: ?cD if h: ?hD
  proof -
    have "cart_validates \<lparr>cart_id = new_cart_id (carts d), userId = Some uid,
                                   sessionId = None, items = []\<rparr>"
      by (simp add: cart_validates_def)
    from save_new [OF this]
    have sv: "save_cart \<lparr>cart_id = new_cart_id (carts d), userId = Some uid,
                                   sessionId = None, items = []\<rparr> (carts d)
       = Inr (carts d @ [\<lparr>cart_id = new_cart_id (carts d), userId = Some uid,
                                   sessionId = None, items = []\<rparr>])"
      by simp
    show ?thesis using h u s tu ts sv by (auto simp: cart_merge_def Let_def itemCount_def)
  qed
  from A B C D show ?thesis by blast
qed


theorem cart_merge_cases_witness:
  "fst (cart_merge example_valid (shop\<lparr>carts := [guest_cart, user_cart]\<rparr>) merge_request) =
     CartOk ''Cart merged successfully'' 2
       [\<lparr>productId = ''p2'', quantity = 1\<rparr>, \<lparr>productId = ''p1'', quantity = 4\<rparr>] 5
   \<and> carts (snd (cart_merge example_valid (shop\<lparr>carts := [guest_cart, user_cart]\<rparr>) merge_request)) =
     [user_cart\<lparr>items := [\<lparr>productId = ''p2'', quantity = 1\<rparr>,
                            \<lparr>productId = ''p1'', quantity = 4\<rparr>]\<rparr>]
   \<and> cart_merge example_valid shop merge_request =
     (CartOk ''Cart merged successfully'' 1 [\<lparr>productId = ''p1'', quantity = 3\<rparr>] 3,
      shop\<lparr>carts := [guest_cart\<lparr>userId := Some ''u1'', sessionId := None\<rparr>]\<rparr>)
   \<and> cart_merge example_valid (shop\<lparr>carts := [user_cart]\<rparr>) merge_request =
     (CartOk ''No items to merge'' 2
        [\<lparr>productId = ''p2'', quantity = 1\<rparr>, \<lparr>productId = ''p1'', quantity = 1\<rparr>] 2,
      shop\<lparr>carts := [user_cart]\<rparr>)
   \<and> cart_merge example_valid (shop\<lparr>carts := []\<rparr>) merge_request =
     (CartOk ''No items to merge'' 1 [] 0,
      shop\<lparr>carts := [\<lparr>cart_id = 1, userId = Some ''u1'', sessionId = None, items = []\<rparr>]\<rparr>)"
proof -
  have u: "body_userId merge_request = Some ''u1''" "''u1'' \<noteq> []" "example_valid ''u1''"
    and s: "body_sessionId merge_request = Some ''session_1''" "''session_1'' \<noteq> []"
    by (simp_all add: merge_request_def example_valid_def)
  note mc = cart_merge_cases [where isValid = example_valid, OF u s]
  have hA: "findOne (\<lambda>x. sessionId x = Some ''session_1'') (carts (shop\<lparr>carts := [guest_cart, user_cart]\<rparr>))
        = Some guest_cart \<and> items guest_cart \<noteq> []
      \<and> findOne (\<lambda>x. userId x = Some ''u1'') (carts (shop\<lparr>carts := [guest_cart, user_cart]\<rparr>))
        = Some user_cart
      \<and> cart_id guest_cart \<noteq> cart_id user_cart
      \<and> distinct (map cart_id (carts (shop\<lparr>carts := [guest_cart, user_cart]\<rparr>)))
      \<and> cart_validates user_cart \<and> cart_validates guest_cart"
    by (simp add: findOne_def guest_cart_def user_cart_def cart_validates_def)
  have m: "merge_items (items user_cart) (items guest_cart) =
      [\<lparr>productId = ''p2'', quantity = 1\<rparr>, \<lparr>productId = ''p1'', quantity = 4\<rparr>]"
    by (simp add: guest_cart_def user_cart_def)
  from mc [where d = "shop\<lparr>carts := [guest_cart, user_cart]\<rparr>" and g = guest_cart
              and c = user_cart, THEN conjunct1] hA
  obtain d' where
    r: "cart_merge example_valid (shop\<lparr>carts := [guest_cart, user_cart]\<rparr>) merge_request =
               (CartOk ''Cart merged successfully'' (cart_id user_cart)
                  (merge_items (items user_cart) (items guest_cart))
                  (itemCount (merge_items (items user_cart) (items guest_cart))), d')"
    and c: "carts d' =
               deleteOne (\<lambda>x. sessionId x = Some ''session_1'')
                 (map (\<lambda>x. if cart_id x = cart_id user_cart
                            then user_cart\<lparr>items := merge_items (items user_cart) (items guest_cart)\<rparr>
                            else x) (carts (shop\<lparr>carts := [guest_cart, user_cart]\<rparr>)))"
    by blast
  have a1: "fst (cart_merge example_valid (shop\<lparr>carts := [guest_cart, user_cart]\<rparr>) merge_request) =
     CartOk ''Cart merged successfully'' 2
       [\<lparr>productId = ''p2'', quantity = 1\<rparr>, \<lparr>productId = ''p1'', quantity = 4\<rparr>] 5"
    by (simp add: r m itemCount_def) (simp add: user_cart_def)
  have a2: "carts (snd (cart_merge example_valid (shop\<lparr>carts := [guest_cart, user_cart]\<rparr>) merge_request)) =
     [user_cart\<lparr>items := [\<lparr>productId = ''p2'', quantity = 1\<rparr>,
                            \<lparr>productId = ''p1'', quantity = 4\<rparr>]\<rparr>]"
    by (simp add: r c m) (simp add: user_cart_def guest_cart_def)
  have hB: "findOne (\<lambda>x. sessionId x = Some ''session_1'') (carts shop) = Some guest_cart
        \<and> items guest_cart \<noteq> []
        \<and> findOne (\<lambda>x. userId x = Some ''u1'') (carts shop) = None \<and> cart_validates guest_cart"
    by (simp add: findOne_def shop_def guest_cart_def cart_validates_def)
  from mc [where d = shop and g = guest_cart, THEN conjunct2, THEN conjunct1] hB
  have b: "cart_merge example_valid shop merge_request =
     (CartOk ''Cart merged successfully'' 1 [\<lparr>productId = ''p1'', quantity = 3\<rparr>] 3,
      shop\<lparr>carts := [guest_cart\<lparr>userId := Some ''u1'', sessionId := None\<rparr>]\<rparr>)"
    by (simp add: itemCount_def shop_def) (simp add: guest_cart_def)
  have hC: "(findOne (\<lambda>x. sessionId x = Some ''session_1'') (carts (shop\<lparr>carts := [user_cart]\<rparr>)) = None
          \<or> (findOne (\<lambda>x. sessionId x = Some ''session_1'') (carts (shop\<lparr>carts := [user_cart]\<rparr>))
                = Some guest_cart \<and> items guest_cart = []))
        \<and> findOne (\<lambda>x. userId x = Some ''u1'') (carts (shop\<lparr>carts := [user_cart]\<rparr>)) = Some user_cart"
    by (simp add: findOne_def user_cart_def)
  from mc [where d = "shop\<lparr>carts := [user_cart]\<rparr>" and g = guest_cart and c = user_cart,
            THEN conjunct2, THEN conjunct2, THEN conjunct1] hC
  have cc: "cart_merge example_valid (shop\<lparr>carts := [user_cart]\<rparr>) merge_request =
     (CartOk ''No items to merge'' 2
        [\<lparr>productId = ''p2'', quantity = 1\<rparr>, \<lparr>productId = ''p1'', quantity = 1\<rparr>] 2,
      shop\<lparr>carts := [user_cart]\<rparr>)"
    by (simp add: itemCount_def) (simp add: user_cart_def)
  have hD: "(findOne (\<lambda>x. sessionId x = Some ''session_1'') (carts (shop\<lparr>carts := []\<rparr>)) = None
          \<or> (findOne (\<lambda>x. sessionId x = Some ''session_1'') (carts (shop\<lparr>carts := []\<rparr>))
                = Some guest_cart \<and> items guest_cart = []))
        \<and> findOne (\<lambda>x. userId x = Some ''u1'') (carts (shop\<lparr>carts := []\<rparr>)) = None"
    by (simp add: findOne_def)
  from mc [where d = "shop\<lparr>carts := []\<rparr>" and g = guest_cart,
            THEN conjunct2, THEN conjunct2, THEN conjunct2] hD
  have dd: "cart_merge example_valid (shop\<lparr>carts := []\<rparr>) merge_request =
     (CartOk ''No items to merge'' 1 [] 0,
      shop\<lparr>carts := [\<lparr>cart_id = 1, userId = Some ''u1'', sessionId = None, items = []\<rparr>]\<rparr>)"
    by (simp add: new_cart_id_def)
  from a1 a2 b cc dd show ?thesis by blast
qed

text \<open>
  An empty guest cart and no user cart: the guest cart keeps its session key and a
  second, empty cart is stored for the user.
\<close>

theorem cart_merge_empty_guest_counterexample:
  "cart_merge example_valid (shop\<lparr>carts := [guest_cart\<lparr>items := []\<rparr>]\<rparr>) merge_request =
     (CartOk ''No items to merge'' 2 [] 0,
      shop\<lparr>carts := [guest_cart\<lparr>items := []\<rparr>,
                      \<lparr>cart_id = 2, userId = Some ''u1'', sessionId = None, items = []\<rparr>]\<rparr>)"
  by (simp add: cart_merge_def merge_request_def truthy_def example_valid_def findOne_def
      guest_cart_def save_cart_def cart_validates_def new_cart_id_def itemCount_def Let_def)

section \<open>Properties of order placement\<close>

lemma place_items_append:
  "place_items isValid ps sub acc (xs @ ys) =
     (case place_items isValid ps sub acc xs of
        (ps', Inl r) \<Rightarrow> (ps', Inl r)
      | (ps', Inr (sub', acc')) \<Rightarrow> place_items isValid ps' sub' acc' ys)"
  by (induction xs arbitrary: ps sub acc)
     (auto simp: findById_def Let_def split: option.splits)

lemma place_items_stock:
  "place_items isValid ps sub acc xs = (ps', Inr res) \<Longrightarrow>
     ps' i = map_option (\<lambda>p. p\<lparr>stock := stock p - requested_qty i xs\<rparr>) (ps i)"
proof (induction xs arbitrary: ps sub acc)
  case Nil
  then show ?case by (cases "ps i") (simp_all add: requested_qty_def)
next
  case (Cons x xs)
  from Cons.prems obtain product where pr: "ps (ri_productId x) = Some product"
    and ok: "\<not> stock product < ri_quantity x" and val: "isValid (ri_productId x)"
    by (auto simp: findById_def split: option.splits if_splits)
  let ?ps1 = "ps(ri_productId x \<mapsto> product\<lparr>stock := stock product - ri_quantity x\<rparr>)"
  from Cons.prems pr ok val obtain s1 a1 where
    rest: "place_items isValid ?ps1 s1 a1 xs = (ps', Inr res)"
    by (auto simp: findById_def Let_def)
  from Cons.IH [OF rest]
  have "ps' i = map_option (\<lambda>p. p\<lparr>stock := stock p - requested_qty i xs\<rparr>) (?ps1 i)" .
  then show ?case using pr
    by (cases "ps i") (auto simp: requested_qty_def algebra_simps)
qed

lemma place_items_subtotal:
  "place_items isValid ps sub acc xs = (ps', Inr (sub', acc')) \<Longrightarrow>
     sub' - lines_total acc' = sub - lines_total acc"
proof (induction xs arbitrary: ps sub acc)
  case Nil
  then show ?case by simp
next
  case (Cons x xs)
  from Cons.prems obtain product where pr: "ps (ri_productId x) = Some product"
    and ok: "\<not> stock product < ri_quantity x" and val: "isValid (ri_productId x)"
    by (auto simp: findById_def split: option.splits if_splits)
  let ?l = "\<lparr>oi_productId = ri_productId x, oi_productName = name product,
             oi_quantity = ri_quantity x, oi_price = price product,
             oi_subtotal = price product * ri_quantity x\<rparr>"
  from Cons.prems pr ok val have
    rest: "place_items isValid (ps(ri_productId x \<mapsto> product\<lparr>stock := stock product - ri_quantity x\<rparr>))
             (sub + price product * ri_quantity x) (acc @ [?l]) xs = (ps', Inr (sub', acc'))"
    by (simp add: findById_def Let_def)
  from Cons.IH [OF rest] show ?case by (simp add: lines_total_def)
qed

lemma place_items_error:
  "place_items isValid ps sub acc xs = (ps', Inl r) \<Longrightarrow> \<exists>n m. r = Fail n m"
  by (induction xs arbitrary: ps sub acc)
     (auto simp: findById_def Let_def server_error_def split: option.splits if_splits)

lemma place_order_total:
  assumes "place_order isValid newId number cs as d rq = (OrderPlaced i n t s p c a, d')"
  shows "\<exists>ord. orders d' newId = Some ord \<and> t = totalAmount ord
     \<and> totalAmount ord = lines_total (order_items ord) + shippingFee ord + tax ord"
proof -
  from assms obtain ps sub ois where
    loop: "place_items isValid (products d) 0 [] (the (rq_items rq)) = (ps, Inr (sub, ois))"
    by (auto simp: place_order_def Let_def split: if_splits prod.splits sum.splits
        dest: place_items_error)
  from place_items_subtotal [OF loop] have "sub = lines_total ois"
    by (simp add: lines_total_def)
  with assms loop show ?thesis
    by (auto simp: place_order_def Let_def split: if_splits)
qed

text \<open>
  C4. A direct order whose lines before position k pass their checks, one after the
  other on the stock the earlier lines have left, and whose line at position k names a
  product that is missing or has too little stock: the answer is 404 or 400
  accordingly, no order is stored, and the products are stored as the loop left them,
  every product's stock lower by the quantity the lines before position k ask of it.
\<close>

theorem place_order_partial_decrement:
  assumes info: "rq_customerInfo rq = Some ci" and addr: "rq_shippingAddress rq = Some sa"
    and its: "rq_items rq = Some (pre @ item # post)"
    and pre: "place_items isValid (products d) 0 [] pre = (ps, Inr (sub, ois))"
    and val: "isValid (ri_productId item)"
    and bad: "case ps (ri_productId item) of None \<Rightarrow> True
              | Some p \<Rightarrow> stock p < ri_quantity item"
  shows "place_order isValid newId number customerSent adminSent d rq =
           ((case ps (ri_productId item) of
               None \<Rightarrow> Fail 404 (ProductNotFoundMsg (ri_productId item))
             | Some p \<Rightarrow> Fail 400 (InsufficientStockFor (name p))),
            d\<lparr>products := ps\<rparr>)
     \<and> (\<forall>i. ps i = map_option (\<lambda>p. p\<lparr>stock := stock p - requested_qty i pre\<rparr>) (products d i))"
proof -
  have stop: "place_items isValid ps sub ois (item # post) =
       (ps, Inl (case ps (ri_productId item) of
               None \<Rightarrow> Fail 404 (ProductNotFoundMsg (ri_productId item))
             | Some p \<Rightarrow> Fail 400 (InsufficientStockFor (name p))))"
    using val bad by (simp add: findById_def split: option.splits)
  have "place_items isValid (products d) 0 [] (pre @ item # post) =
       (ps, Inl (case ps (ri_productId item) of
               None \<Rightarrow> Fail 404 (ProductNotFoundMsg (ri_productId item))
             | Some p \<Rightarrow> Fail 400 (InsufficientStockFor (name p))))"
    by (simp only: place_items_append pre stop prod.case sum.case)
  then have a: "place_order isValid newId number customerSent adminSent d rq =
           ((case ps (ri_productId item) of
               None \<Rightarrow> Fail 404 (ProductNotFoundMsg (ri_productId item))
             | Some p \<Rightarrow> Fail 400 (InsufficientStockFor (name p))),
            d\<lparr>products := ps\<rparr>)"
    using info addr its by (simp add: place_order_def)
  have b: "\<forall>i. ps i = map_option (\<lambda>p. p\<lparr>stock := stock p - requested_qty i pre\<rparr>) (products d i)"
    using place_items_stock [OF pre] by simp
  from a b show ?thesis by simp
qed

theorem place_order_partial_decrement_witness:
  "place_order example_valid ''o2'' ''YOS000002002'' True True shop (direct_request two_lines) =
     (Fail 400 (InsufficientStockFor ''Mug''),
      shop\<lparr>products := [''p1'' \<mapsto> tea\<lparr>stock := 3\<rparr>, ''p2'' \<mapsto> mug]\<rparr>)"
proof -
  let ?ps = "[''p1'' \<mapsto> tea\<lparr>stock := 3\<rparr>, ''p2'' \<mapsto> mug]"
  have a: "rq_customerInfo (direct_request two_lines) = Some ada"
    and b: "rq_shippingAddress (direct_request two_lines) = Some main_street"
    and c: "rq_items (direct_request two_lines) =
        Some ([\<lparr>ri_productId = ''p1'', ri_quantity = 2\<rparr>] @ \<lparr>ri_productId = ''p2'', ri_quantity = 5\<rparr> # [])"
    by (simp_all add: direct_request_def two_lines_def)
  have d: "place_items example_valid (products shop) 0 [] [\<lparr>ri_productId = ''p1'', ri_quantity = 2\<rparr>] =
      (?ps, Inr (20, [\<lparr>oi_productId = ''p1'', oi_productName = ''Tea'', oi_quantity = 2,
                       oi_price = 10, oi_subtotal = 20\<rparr>]))"
    by (simp add: shop_def findById_def example_valid_def tea_def fun_upd_twist)
  have e: "example_valid (ri_productId \<lparr>ri_productId = ''p2'', ri_quantity = 5\<rparr>)"
    by (simp add: example_valid_def)
  have f: "case ?ps (ri_productId \<lparr>ri_productId = ''p2'', ri_quantity = 5\<rparr>) of None \<Rightarrow> True
              | Some p \<Rightarrow> stock p < ri_quantity \<lparr>ri_productId = ''p2'', ri_quantity = 5\<rparr>"
    by (simp add: mug_def)
  have g: "(case ?ps (ri_productId \<lparr>ri_productId = ''p2'', ri_quantity = 5\<rparr>) of
               None \<Rightarrow> Fail 404 (ProductNotFoundMsg (ri_productId \<lparr>ri_productId = ''p2'', ri_quantity = 5\<rparr>))
             | Some p \<Rightarrow> Fail 400 (InsufficientStockFor (name p)))
           = Fail 400 (InsufficientStockFor ''Mug'')"
    by (simp add: mug_def)
  from place_order_partial_decrement
         [OF a b c d e f, of "''o2''" "''YOS000002002''" True True, THEN conjunct1]
  show ?thesis by (simp only: g)
qed



section \<open>Properties of the per-identity lock\<close>

lemma run_append: "run maxWait g (xs @ ys) = run maxWait (run maxWait g xs) ys"
  by (simp add: run_def)

lemma run_Cons: "run maxWait g (e # es) = run maxWait (step maxWait g e) es"
  by (simp add: run_def)

lemma run_Nil: "run maxWait g [] = g"
  by (simp add: run_def)

lemma wait_rounds:
  assumes "key \<in> cartLocks g" and "phases g i = Waiting key st (clock g + 10)"
    and "clock g + 10 * n \<le> st + maxWait"
  shows "run maxWait g (concat (replicate n [Tick 10, Wake i])) =
           g\<lparr>clock := clock g + 10 * n,
             phases := (phases g)(i := Waiting key st (clock g + 10 * n + 10))\<rparr>"
  using assms
proof (induction n arbitrary: g)
  case 0
  then show ?case by (simp add: run_Nil fun_upd_idem)
next
  case (Suc n)
  let ?g1 = "g\<lparr>clock := clock g + 10, phases := (phases g)(i := Waiting key st (clock g + 20))\<rparr>"
  from Suc.prems have le: "\<not> clock g + 10 - st > maxWait" by simp
  have one: "step maxWait (step maxWait g (Tick 10)) (Wake i) = ?g1"
    using Suc.prems(1,2) le by (simp add: acquire_attempt_def ac_simps)
  have a: "key \<in> cartLocks ?g1" using Suc.prems(1) by simp
  have b: "phases ?g1 i = Waiting key st (clock ?g1 + 10)" by simp
  have c: "clock ?g1 + 10 * n \<le> st + maxWait" using Suc.prems(3) by simp
  have "run maxWait g (concat (replicate (Suc n) [Tick 10, Wake i])) =
        run maxWait ?g1 (concat (replicate n [Tick 10, Wake i]))"
    by (simp del: step.simps add: run_Cons one)
  also have "\<dots> = ?g1\<lparr>clock := clock ?g1 + 10 * n,
             phases := (phases ?g1)(i := Waiting key st (clock ?g1 + 10 * n + 10))\<rparr>"
    by (rule Suc.IH [OF a b c])
  also have "\<dots> = g\<lparr>clock := clock g + 10 * Suc n,
             phases := (phases g)(i := Waiting key st (clock g + 10 * Suc n + 10))\<rparr>"
    by (simp add: add.assoc)
  finally show ?case .
qed

lemma clock_step: "clock (step maxWait g e) = clock g + ticks e"
  by (cases e) (auto simp: acquire_attempt_def split: phase.splits)

lemma exclusive_acquire:
  assumes "exclusive g" and "clock g \<le> maxWait" and "\<forall>key. phases g i \<noteq> InBody key"
  shows "exclusive (acquire_attempt maxWait i key st g)"
proof -
  have nt: "\<not> clock g - st > maxWait" using assms(2) by simp
  show ?thesis
  proof (cases "key \<in> cartLocks g")
    case True
    with nt assms(1,3) show ?thesis
      by (auto simp: acquire_attempt_def exclusive_def)
  next
    case False
    with assms(1) have "\<forall>j. phases g j \<noteq> InBody key" by (auto simp: exclusive_def)
    with False assms(1) show ?thesis
      by (auto simp: acquire_attempt_def exclusive_def)
  qed
qed

lemma exclusive_step:
  assumes "exclusive g" and "clock g + ticks e \<le> maxWait"
  shows "exclusive (step maxWait g e)"
proof (cases e)
  case (Tick n)
  with assms(1) show ?thesis by (simp add: exclusive_def)
next
  case (Arrive i key)
  show ?thesis
  proof (cases "phases g i")
    case NotStarted
    then have "\<forall>k. phases g i \<noteq> InBody k" by simp
    from exclusive_acquire [OF assms(1) _ this, of maxWait key "clock g"] assms Arrive NotStarted
    show ?thesis by simp
  qed (use assms(1) Arrive in simp_all)
next
  case (Wake i)
  show ?thesis
  proof (cases "phases g i")
    case (Waiting key st due)
    then have "\<forall>k. phases g i \<noteq> InBody k" by simp
    from exclusive_acquire [OF assms(1) _ this, of maxWait key st] assms Wake Waiting
    show ?thesis by simp
  qed (use assms(1) Wake in simp_all)
next
  case (Complete i)
  show ?thesis
  proof (cases "phases g i")
    case (InBody key)
    with assms(1) have "\<forall>j. j \<noteq> i \<longrightarrow> phases g j \<noteq> InBody key"
      by (auto simp: exclusive_def)
    with assms(1) Complete InBody show ?thesis
      by (auto simp: exclusive_def)
  qed (use assms(1) Complete in simp_all)
qed

lemma exclusive_run:
  "exclusive g \<Longrightarrow> clock g + sum_list (map ticks evs) \<le> maxWait \<Longrightarrow>
     exclusive (run maxWait g evs)"
proof (induction evs arbitrary: g)
  case Nil
  then show ?case by (simp add: run_def)
next
  case (Cons e evs)
  from Cons.prems have a: "exclusive (step maxWait g e)"
    by (intro exclusive_step) simp_all
  from Cons.prems have b: "clock (step maxWait g e) + sum_list (map ticks evs) \<le> maxWait"
    by (simp add: clock_step)
  from Cons.IH [OF a b] show ?case by (simp add: run_def)
qed

text \<open>
  As long as the schedule lets no more time pass than \<open>maxWait\<close>, no acquire can time
  out, and two requests inside the protected part for one key are the same request.
\<close>

lemma lock_exclusive_without_timeout:
  assumes "sum_list (map ticks evs) \<le> maxWait"
    and "phases (run maxWait idle evs) i = InBody key"
    and "phases (run maxWait idle evs) j = InBody key"
  shows "i = j"
proof -
  have "exclusive idle" by (simp add: exclusive_def idle_def)
  moreover have "clock idle + sum_list (map ticks evs) \<le> maxWait"
    using assms(1) by (simp add: idle_def)
  ultimately have "exclusive (run maxWait idle evs)" by (rule exclusive_run)
  with assms(2,3) show ?thesis by (auto simp: exclusive_def)
qed

text \<open>
  C2, on the schedule \<open>slow_first\<close>. The second request gives up after five seconds;
  its \<^verbatim>\<open>finally\<close> block deletes the entry the first request still relies on; the third
  request finds the key free. At the end the first and the third request are both
  inside the protected part for the same key.
\<close>

theorem lock_timeout_releases_foreign_lock:
  "phases (run 5000 idle slow_first) 0 = InBody ''session_1''
   \<and> phases (run 5000 idle slow_first) 1 = TimedOut
   \<and> phases (run 5000 idle slow_first) 2 = InBody ''session_1''"
proof -
  let ?k = "''session_1''"
  let ?g2 = "\<lparr>cartLocks = {?k}, clock = 0,
             phases = (\<lambda>_. NotStarted)(0 := InBody ?k, 1 := Waiting ?k 0 10)\<rparr>"
  let ?g3 = "\<lparr>cartLocks = {?k}, clock = 5000,
             phases = (\<lambda>_. NotStarted)(0 := InBody ?k, 1 := Waiting ?k 0 5010)\<rparr>"
  have s2: "run 5000 idle [Arrive 0 ?k, Arrive 1 ?k] = ?g2"
    by (simp add: run_def idle_def acquire_attempt_def)
  have "run 5000 ?g2 (concat (replicate 500 [Tick 10, Wake 1])) =
          ?g2\<lparr>clock := clock ?g2 + 10 * 500,
              phases := (phases ?g2)(1 := Waiting ?k 0 (clock ?g2 + 10 * 500 + 10))\<rparr>"
    by (rule wait_rounds) simp_all
  then have s3: "run 5000 ?g2 (concat (replicate 500 [Tick 10, Wake 1])) = ?g3"
    by simp
  have s4: "run 5000 ?g3 [Tick 10, Wake 1, Arrive 2 ?k] =
        \<lparr>cartLocks = {?k}, clock = 5010,
         phases = (\<lambda>_. NotStarted)(0 := InBody ?k, 1 := TimedOut, 2 := InBody ?k)\<rparr>"
    by (simp add: run_def acquire_attempt_def)
  have n: "(501::nat) = Suc 500" by simp
  have "replicate 501 [Tick 10, Wake 1] = replicate 500 [Tick 10, Wake 1] @ [[Tick 10, Wake 1]]"
    unfolding n by (simp only: replicate_Suc replicate_append_same)
  then have sf: "slow_first = [Arrive 0 ?k, Arrive 1 ?k] @ concat (replicate 500 [Tick 10, Wake 1])
      @ [Tick 10, Wake 1, Arrive 2 ?k]"
    by (simp add: slow_first_def)
  have "run 5000 idle slow_first =  \<lparr>cartLocks = {?k}, clock = 5010,
         phases = (\<lambda>_. NotStarted)(0 := InBody ?k, 1 := TimedOut, 2 := InBody ?k)\<rparr>"
    by (simp only: sf run_append s2 s3 s4)
  then show ?thesis by simp
qed

end
